theory Spec2Isabelle
  imports Complex_Main "HOL-Library.Char_ord" "HOL-Library.List_Lexorder"
begin

section \<open>The recommender of \<^verbatim>\<open>recommender_system.py\<close>\<close>

text \<open>
  The class \<^verbatim>\<open>RecommenderSystem\<close> loads a table of transactions, label-encodes six
  categorical columns, builds one feature row per product, computes the pairwise cosine
  similarity of the feature rows and answers two queries from it.

  Conventions of the embedding:
  \<^item> a data frame is the list of its rows, in frame order; the frame handed to
    \<open>init\<close> is the one left by \<^verbatim>\<open>read_csv\<close> and \<^verbatim>\<open>dropna\<close>, so every cell is present;
  \<^item> a numeric cell is a real number: the arithmetic is exact, the rounding of float64 is
    not part of the model. A column of NaN (the only way the source produces NaN) is
    the value \<open>None\<close> of \<open>create_product_features\<close>;
  \<^item> an exception is the \<open>Inl\<close> of a sum;
  \<^item> the library calls (\<^verbatim>\<open>LabelEncoder\<close>, \<^verbatim>\<open>cosine_similarity\<close>, \<^verbatim>\<open>sort_values\<close>,
    \<^verbatim>\<open>head\<close>, \<^verbatim>\<open>drop_duplicates\<close>, \<^verbatim>\<open>list.remove\<close>) are written out as their
    documentation gives them;
  \<^item> the order in which Python iterates over a \<^verbatim>\<open>set\<close> is a parameter \<open>set_iter\<close>.
\<close>

subsection \<open>Data\<close>

datatype error = KeyError | ValueError | TypeError

text \<open>
  One row of the data frame. \<open>'p\<close> is the type of product identifiers, \<open>'c\<close> the type of
  a categorical cell: \<open>string\<close> as loaded, \<open>nat\<close> once \<open>encode_features\<close> has run.
\<close>

record ('p, 'c) row =
  Customer_ID :: string
  Product_ID :: 'p
  Gender :: 'c
  City :: 'c
  Product_Category :: 'c
  Payment_Method :: 'c
  Age_Group :: 'c
  Loyalty_Tier :: 'c
  Price :: real
  Competitor_Price :: real
  Ad_Click_Through_Rate :: real
  Browsing_Time_mins :: real
  Voice_Search_Count :: real
  Visual_Search_Count :: real

text \<open>
  A row of \<^verbatim>\<open>product_features\<close>: the index (\<^verbatim>\<open>Product_ID\<close>), the encoded category and
  the six numeric columns in the order of the source's column list.
\<close>

record 'p product_row =
  pf_index :: 'p
  pf_category :: nat
  pf_numeric :: "real list"

text \<open>\<^verbatim>\<open>product_similarity_df\<close>: row labels, column labels and the matrix, row by row.\<close>

record 'p similarity_frame =
  sim_index :: "'p list"
  sim_columns :: "'p list"
  sim_values :: "real list list"

record 'p recommender =
  df :: "('p, nat) row list"
  label_encoders :: "string \<rightharpoonup> string list"
  product_features :: "'p product_row list"
  product_similarity_df :: "'p similarity_frame"

subsection \<open>\<^verbatim>\<open>LabelEncoder\<close>\<close>

text \<open>\<^verbatim>\<open>fit\<close> stores the sorted distinct labels as \<^verbatim>\<open>classes_\<close>.\<close>

definition fit :: "string list \<Rightarrow> string list" where
  "fit y = sort (remdups y)"

text \<open>\<^verbatim>\<open>transform\<close> of one label: its position in \<^verbatim>\<open>classes_\<close>.\<close>

fun transform :: "string list \<Rightarrow> string \<Rightarrow> nat" where
  "transform [] v = 0"
| "transform (c # cs) v = (if c = v then 0 else Suc (transform cs v))"

text \<open>\<^verbatim>\<open>inverse_transform\<close> of one code; a code outside \<^verbatim>\<open>classes_\<close> raises.\<close>

definition inverse_transform :: "string list \<Rightarrow> nat \<Rightarrow> error + string" where
  "inverse_transform classes code =
     (if code < length classes then Inr (classes ! code) else Inl ValueError)"

text \<open>\<^verbatim>\<open>inverse_transform\<close> of a column of codes.\<close>

fun inverse_transform_all :: "string list \<Rightarrow> nat list \<Rightarrow> error + string list" where
  "inverse_transform_all classes [] = Inr []"
| "inverse_transform_all classes (c # cs) =
     (case inverse_transform classes c of
        Inl e \<Rightarrow> Inl e
      | Inr v \<Rightarrow> (case inverse_transform_all classes cs of
                    Inl e \<Rightarrow> Inl e
                  | Inr vs \<Rightarrow> Inr (v # vs)))"

subsection \<open>\<^verbatim>\<open>_encode_features\<close>\<close>

text \<open>
  Each of the six columns is replaced by its codes and its encoder is stored under the
  column's name. The columns do not depend on one another, so the loop is written as
  one pass over the rows: \<open>encode_row\<close> is a row of the frame after the loop.
\<close>

definition encode_row :: "('p, string) row list \<Rightarrow> ('p, string) row \<Rightarrow> ('p, nat) row" where
  "encode_row raw r =
     \<lparr>Customer_ID = Customer_ID r, Product_ID = Product_ID r,
      Gender = transform (fit (map Gender raw)) (Gender r),
      City = transform (fit (map City raw)) (City r),
      Product_Category = transform (fit (map Product_Category raw)) (Product_Category r),
      Payment_Method = transform (fit (map Payment_Method raw)) (Payment_Method r),
      Age_Group = transform (fit (map Age_Group raw)) (Age_Group r),
      Loyalty_Tier = transform (fit (map Loyalty_Tier raw)) (Loyalty_Tier r),
      Price = Price r, Competitor_Price = Competitor_Price r,
      Ad_Click_Through_Rate = Ad_Click_Through_Rate r,
      Browsing_Time_mins = Browsing_Time_mins r,
      Voice_Search_Count = Voice_Search_Count r,
      Visual_Search_Count = Visual_Search_Count r\<rparr>"

definition encode_features ::
  "('p, string) row list \<Rightarrow> (string \<rightharpoonup> string list) \<times> ('p, nat) row list" where
  "encode_features raw =
     ([''Gender'' \<mapsto> fit (map Gender raw), ''City'' \<mapsto> fit (map City raw),
       ''Product_Category'' \<mapsto> fit (map Product_Category raw),
       ''Payment_Method'' \<mapsto> fit (map Payment_Method raw),
       ''Age_Group'' \<mapsto> fit (map Age_Group raw),
       ''Loyalty_Tier'' \<mapsto> fit (map Loyalty_Tier raw)],
      map (encode_row raw) raw)"

text \<open>
  The column list of the loop: each name with the column as loaded and the column once
  encoded.
\<close>

definition categorical_columns ::
  "(string \<times> (('p, string) row \<Rightarrow> string) \<times> (('p, nat) row \<Rightarrow> nat)) list" where
  "categorical_columns =
     [(''Gender'', Gender, Gender), (''City'', City, City),
      (''Product_Category'', Product_Category, Product_Category),
      (''Payment_Method'', Payment_Method, Payment_Method),
      (''Age_Group'', Age_Group, Age_Group),
      (''Loyalty_Tier'', Loyalty_Tier, Loyalty_Tier)]"

subsection \<open>\<^verbatim>\<open>_create_product_features\<close>\<close>

text \<open>
  \<^verbatim>\<open>drop_duplicates\<close> keeps the first row of every key (\<^verbatim>\<open>keep='first'\<close>); \<open>seen\<close> holds the
  keys met so far.
\<close>

fun drop_duplicates_on :: "('a \<Rightarrow> 'k) \<Rightarrow> 'k list \<Rightarrow> 'a list \<Rightarrow> 'a list" where
  "drop_duplicates_on key seen [] = []"
| "drop_duplicates_on key seen (x # xs) =
     (if key x \<in> set seen then drop_duplicates_on key seen xs
      else x # drop_duplicates_on key (key x # seen) xs)"

text \<open>The six columns that the source rescales, in the order of its list.\<close>

definition numeric_columns :: "(('p, nat) row \<Rightarrow> real) list" where
  "numeric_columns =
     [Price, Competitor_Price, Ad_Click_Through_Rate, Browsing_Time_mins,
      Voice_Search_Count, Visual_Search_Count]"

text \<open>The eight selected columns of a row: the key of \<^verbatim>\<open>drop_duplicates()\<close>.\<close>

definition selected_columns :: "('p, nat) row \<Rightarrow> 'p \<times> nat \<times> real list" where
  "selected_columns r = (Product_ID r, Product_Category r, map (\<lambda>c. c r) numeric_columns)"

text \<open>
  \<^verbatim>\<open>lambda x: (x - x.min()) / (x.max() - x.min())\<close> on one column \<open>x\<close>, at the cell \<open>v\<close>.
  When the column is empty or constant every cell is NaN (\<^verbatim>\<open>0/0\<close>): \<open>nan_column\<close>.
\<close>

definition nan_column :: "real list \<Rightarrow> bool" where
  "nan_column x = (x = [] \<or> Max (set x) = Min (set x))"

definition min_max :: "real list \<Rightarrow> real \<Rightarrow> real" where
  "min_max x v = (v - Min (set x)) / (Max (set x) - Min (set x))"

text \<open>
  The feature frame, or \<open>None\<close> when one of the six columns is NaN. The category column
  is copied as it is: it is not in the list of rescaled columns.
\<close>

definition create_product_features :: "('p, nat) row list \<Rightarrow> 'p product_row list option" where
  "create_product_features d =
     (let rows = drop_duplicates_on selected_columns [] d in
      if list_ex (\<lambda>c. nan_column (map c rows)) numeric_columns then None
      else Some (map (\<lambda>r. \<lparr>pf_index = Product_ID r, pf_category = Product_Category r,
                            pf_numeric = map (\<lambda>c. min_max (map c rows) (c r)) numeric_columns\<rparr>)
                     rows))"

subsection \<open>\<^verbatim>\<open>_calculate_similarity\<close>\<close>

text \<open>The seven numbers of a feature row, as \<^verbatim>\<open>cosine_similarity\<close> reads them.\<close>

definition feature_vector :: "'p product_row \<Rightarrow> real list" where
  "feature_vector r = real (pf_category r) # pf_numeric r"

text \<open>
  \<^verbatim>\<open>sklearn.preprocessing.normalize\<close> with the L2 norm: a row is divided by its norm, a
  row of norm zero by one (so it stays zero).
\<close>

definition row_norm :: "real list \<Rightarrow> real" where
  "row_norm x = sqrt (sum_list (map (\<lambda>v. v * v) x))"

definition normalize_l2 :: "real list \<Rightarrow> real list" where
  "normalize_l2 x = map (\<lambda>v. v / (if row_norm x = 0 then 1 else row_norm x)) x"

definition dot :: "real list \<Rightarrow> real list \<Rightarrow> real" where
  "dot x y = sum_list (map2 (*) x y)"

text \<open>\<^verbatim>\<open>cosine_similarity(X)\<close>: the products of the normalized rows.\<close>

definition cosine_similarity :: "real list list \<Rightarrow> real list list" where
  "cosine_similarity X = map (\<lambda>a. map (\<lambda>b. dot (normalize_l2 a) (normalize_l2 b)) X) X"

text \<open>
  \<^verbatim>\<open>cosine_similarity\<close> validates its input first: a frame with NaN or without rows
  raises \<^verbatim>\<open>ValueError\<close>.
\<close>

definition calculate_similarity :: "'p product_row list option \<Rightarrow> error + 'p similarity_frame" where
  "calculate_similarity pf =
     (case pf of
        None \<Rightarrow> Inl ValueError
      | Some [] \<Rightarrow> Inl ValueError
      | Some rows \<Rightarrow>
          Inr \<lparr>sim_index = map pf_index rows, sim_columns = map pf_index rows,
               sim_values = cosine_similarity (map feature_vector rows)\<rparr>)"

subsection \<open>\<^verbatim>\<open>__init__\<close>\<close>

text \<open>
  The constructor, from the frame left by \<^verbatim>\<open>dropna\<close>. An object exists only when
  \<^verbatim>\<open>_calculate_similarity\<close> has not raised, and then the feature frame has no NaN.
\<close>

definition init :: "('p, string) row list \<Rightarrow> error + 'p recommender" where
  "init raw =
     (let (les, d) = encode_features raw;
          pf = create_product_features d
      in case calculate_similarity pf of
           Inl e \<Rightarrow> Inl e
         | Inr sim \<Rightarrow>
             Inr \<lparr>df = d, label_encoders = les,
                  product_features = (case pf of None \<Rightarrow> [] | Some rows \<Rightarrow> rows),
                  product_similarity_df = sim\<rparr>)"

subsection \<open>\<^verbatim>\<open>recommend_products\<close>\<close>

text \<open>
  \<^verbatim>\<open>sort_values(ascending=False)\<close> on a column of (label, similarity) pairs. Entries of
  equal similarity keep their frame order: pandas reverses the column, sorts it ascending
  and reverses the result, and the sort of numpy is an insertion sort on a short array.
\<close>

definition sort_values_desc :: "('p \<times> real) list \<Rightarrow> ('p \<times> real) list" where
  "sort_values_desc column = sort_key (\<lambda>e. - snd e) column"

text \<open>
  \<^verbatim>\<open>head(n)\<close> is the slice \<^verbatim>\<open>[:n]\<close>: the first \<open>n\<close> entries, or all but the last \<open>-n\<close>
  when \<open>n\<close> is negative.
\<close>

definition head :: "int \<Rightarrow> 'a list \<Rightarrow> 'a list" where
  "head n xs = (if 0 \<le> n then take (nat n) xs else take (length xs - nat (- n)) xs)"

text \<open>
  \<^verbatim>\<open>product_similarity_df[product_id]\<close> raises \<^verbatim>\<open>KeyError\<close> for an unknown label and
  gives a frame, not a column, for a label that occurs twice; \<^verbatim>\<open>sort_values\<close> without
  \<^verbatim>\<open>by\<close> then raises \<^verbatim>\<open>TypeError\<close>. \<^verbatim>\<open>list.remove\<close> deletes the first occurrence and
  raises \<^verbatim>\<open>ValueError\<close> when there is none.
\<close>

definition recommend_products :: "'p recommender \<Rightarrow> 'p \<Rightarrow> int \<Rightarrow> error + 'p list" where
  "recommend_products st product_id num_recommendations =
     (let sim = product_similarity_df st in
      case filter (\<lambda>j. sim_columns sim ! j = product_id) [0..<length (sim_columns sim)] of
        [] \<Rightarrow> Inl KeyError
      | [j] \<Rightarrow>
          (let column = zip (sim_index sim) (map (\<lambda>row. row ! j) (sim_values sim));
               similar_products =
                 map fst (head (num_recommendations + 1) (sort_values_desc column))
           in if product_id \<in> set similar_products
              then Inr (remove1 product_id similar_products)
              else Inl ValueError)
      | j # k # ks \<Rightarrow> Inl TypeError)"

subsection \<open>\<^verbatim>\<open>recommend_products_for_customer\<close>\<close>

definition default_num_recommendations :: int where
  "default_num_recommendations = 5"

text \<open>
  The loop over the customer's purchases. \<open>inserted\<close> is the sequence of identifiers
  handed to \<^verbatim>\<open>set.update\<close> so far; the first exception ends the loop.
\<close>

fun update_all :: "'p recommender \<Rightarrow> int \<Rightarrow> 'p list \<Rightarrow> 'p list \<Rightarrow> error + 'p list" where
  "update_all st n [] inserted = Inr inserted"
| "update_all st n (product_id # rest) inserted =
     (case recommend_products st product_id n of
        Inl e \<Rightarrow> Inl e
      | Inr similar \<Rightarrow> update_all st n rest (inserted @ similar))"

text \<open>
  What is known of the enumeration of a Python set: each inserted element once, no other.
\<close>

definition enumerates :: "('p list \<Rightarrow> 'p list) \<Rightarrow> bool" where
  "enumerates set_iter =
     (\<forall>inserted. set (set_iter inserted) = set inserted \<and> distinct (set_iter inserted))"

text \<open>
  \<open>set_iter\<close> gives the order in which \<^verbatim>\<open>list(recommended_products)\<close> enumerates the set
  built from a sequence of insertions. The method reads the object and assigns to none of
  its fields; the object is returned beside the result.
\<close>

definition recommend_products_for_customer ::
  "('p list \<Rightarrow> 'p list) \<Rightarrow> 'p recommender \<Rightarrow> string \<Rightarrow> int \<Rightarrow>
     (error + 'p list \<times> string list \<times> string \<times> string) \<times> 'p recommender" where
  "recommend_products_for_customer set_iter st customer_id num_recommendations =
     (let customer_data = filter (\<lambda>r. Customer_ID r = customer_id) (df st) in
      if customer_data = [] then (Inr ([], [], ''Unknown'', ''Unknown''), st)
      else
       (case label_encoders st ''City'' of
          None \<Rightarrow> Inl KeyError
        | Some le_city \<Rightarrow>
       (case inverse_transform le_city (City (hd customer_data)) of
          Inl e \<Rightarrow> Inl e
        | Inr customer_city \<Rightarrow>
       (case label_encoders st ''Age_Group'' of
          None \<Rightarrow> Inl KeyError
        | Some le_age \<Rightarrow>
       (case inverse_transform le_age (Age_Group (hd customer_data)) of
          Inl e \<Rightarrow> Inl e
        | Inr customer_age_group \<Rightarrow>
       (case update_all st num_recommendations (map Product_ID customer_data) [] of
          Inl e \<Rightarrow> Inl e
        | Inr inserted \<Rightarrow>
       (let recommended_products = head num_recommendations (set_iter inserted);
            categories =
              drop_duplicates_on Product_ID []
                (filter (\<lambda>r. Product_ID r \<in> set recommended_products) (df st))
        in (case label_encoders st ''Product_Category'' of
              None \<Rightarrow> Inl KeyError
            | Some le_category \<Rightarrow>
           (case inverse_transform_all le_category (map Product_Category categories) of
              Inl e \<Rightarrow> Inl e
            | Inr names \<Rightarrow>
                Inr (recommended_products, names, customer_city,
                     customer_age_group)))))))),
        st))"

subsection \<open>The Streamlit form\<close>

text \<open>
  What the button writes: a warning when the list is empty, otherwise the customer's city
  and age group and one line per pair of \<^verbatim>\<open>zip(customer_recommendations, product_categories)\<close>.
\<close>

datatype 'p page = Warning | Details string string "('p \<times> string) list"

definition get_recommendations ::
  "('p list \<Rightarrow> 'p list) \<Rightarrow> 'p recommender \<Rightarrow> string \<Rightarrow> error + 'p page" where
  "get_recommendations set_iter st customer_id =
     (case fst (recommend_products_for_customer set_iter st customer_id
                  default_num_recommendations) of
        Inl e \<Rightarrow> Inl e
      | Inr (customer_recommendations, product_categories, customer_city, customer_age_group) \<Rightarrow>
          if customer_recommendations = [] then Inr Warning
          else Inr (Details customer_city customer_age_group
                      (zip customer_recommendations product_categories)))"

subsection \<open>A small catalogue\<close>

text \<open>
  Three transactions of two customers over three products, used to run the definitions.
  Product identifiers are integers here; CPython enumerates a set of a few small
  non-negative integers in increasing order, which is \<open>ascending\<close>.
\<close>

definition example_frame :: "(nat, string) row list" where
  "example_frame =
     [\<lparr>Customer_ID = ''ZP_CUST1'', Product_ID = 3, Gender = ''F'', City = ''Pune'',
       Product_Category = ''C'', Payment_Method = ''UPI'', Age_Group = ''18-25'',
       Loyalty_Tier = ''Gold'', Price = 20, Competitor_Price = 22,
       Ad_Click_Through_Rate = 2, Browsing_Time_mins = 9, Voice_Search_Count = 4,
       Visual_Search_Count = 0\<rparr>,
      \<lparr>Customer_ID = ''ZP_CUST2'', Product_ID = 2, Gender = ''M'', City = ''Delhi'',
       Product_Category = ''B'', Payment_Method = ''Card'', Age_Group = ''26-35'',
       Loyalty_Tier = ''Silver'', Price = 10, Competitor_Price = 11,
       Ad_Click_Through_Rate = 1, Browsing_Time_mins = 9, Voice_Search_Count = 4,
       Visual_Search_Count = 3\<rparr>,
      \<lparr>Customer_ID = ''ZP_CUST2'', Product_ID = 1, Gender = ''M'', City = ''Delhi'',
       Product_Category = ''A'', Payment_Method = ''Card'', Age_Group = ''26-35'',
       Loyalty_Tier = ''Silver'', Price = 10, Competitor_Price = 11,
       Ad_Click_Through_Rate = 1, Browsing_Time_mins = 5, Voice_Search_Count = 0,
       Visual_Search_Count = 0\<rparr>]"

definition example_df :: "(nat, nat) row list" where
  "example_df =
     [\<lparr>Customer_ID = ''ZP_CUST1'', Product_ID = 3, Gender = 0, City = 1,
       Product_Category = 2, Payment_Method = 1, Age_Group = 0,
       Loyalty_Tier = 0, Price = 20, Competitor_Price = 22,
       Ad_Click_Through_Rate = 2, Browsing_Time_mins = 9, Voice_Search_Count = 4,
       Visual_Search_Count = 0\<rparr>,
      \<lparr>Customer_ID = ''ZP_CUST2'', Product_ID = 2, Gender = 1, City = 0,
       Product_Category = 1, Payment_Method = 0, Age_Group = 1,
       Loyalty_Tier = 1, Price = 10, Competitor_Price = 11,
       Ad_Click_Through_Rate = 1, Browsing_Time_mins = 9, Voice_Search_Count = 4,
       Visual_Search_Count = 3\<rparr>,
      \<lparr>Customer_ID = ''ZP_CUST2'', Product_ID = 1, Gender = 1, City = 0,
       Product_Category = 0, Payment_Method = 0, Age_Group = 1,
       Loyalty_Tier = 1, Price = 10, Competitor_Price = 11,
       Ad_Click_Through_Rate = 1, Browsing_Time_mins = 5, Voice_Search_Count = 0,
       Visual_Search_Count = 0\<rparr>]"

definition example_encoders :: "string \<rightharpoonup> string list" where
  "example_encoders =
     [''Gender'' \<mapsto> [''F'', ''M''], ''City'' \<mapsto> [''Delhi'', ''Pune''],
      ''Product_Category'' \<mapsto> [''A'', ''B'', ''C''],
      ''Payment_Method'' \<mapsto> [''Card'', ''UPI''], ''Age_Group'' \<mapsto> [''18-25'', ''26-35''],
      ''Loyalty_Tier'' \<mapsto> [''Gold'', ''Silver'']]"

definition example_features :: "nat product_row list" where
  "example_features =
     [\<lparr>pf_index = 3, pf_category = 2, pf_numeric = [1, 1, 1, 1, 1, 0]\<rparr>,
      \<lparr>pf_index = 2, pf_category = 1, pf_numeric = [0, 0, 0, 1, 1, 1]\<rparr>,
      \<lparr>pf_index = 1, pf_category = 0, pf_numeric = [0, 0, 0, 0, 0, 0]\<rparr>]"

definition example_recommender :: "nat recommender" where
  "example_recommender =
     \<lparr>df = example_df, label_encoders = example_encoders,
      product_features = example_features,
      product_similarity_df =
        \<lparr>sim_index = [3, 2, 1], sim_columns = [3, 2, 1],
         sim_values = [[1, 2 / 3, 0], [2 / 3, 1, 0], [0, 0, 0]]\<rparr>\<rparr>"

definition ascending :: "nat list \<Rightarrow> nat list" where
  "ascending inserted = sort (remdups inserted)"

section \<open>Properties\<close>

subsection \<open>The catalogue, evaluated\<close>

lemma example_encode: "encode_features example_frame = (example_encoders, example_df)"
  by (simp add: encode_features_def encode_row_def example_frame_def example_df_def
      example_encoders_def fit_def)

lemma example_create: "create_product_features example_df = Some example_features"
  by (simp add: create_product_features_def example_df_def example_features_def
      selected_columns_def numeric_columns_def nan_column_def min_max_def)

lemma sqrt_9: "sqrt 9 = 3"
  using real_sqrt_abs [of 3] by simp

lemma example_cosine:
  "cosine_similarity (map feature_vector example_features) =
     [[1, 2 / 3, 0], [2 / 3, 1, 0], [0, 0, 0]]"
  by (simp add: cosine_similarity_def example_features_def feature_vector_def normalize_l2_def
      row_norm_def dot_def sqrt_9)

lemma example_calculate:
  "calculate_similarity (Some example_features) =
     Inr \<lparr>sim_index = [3, 2, 1], sim_columns = [3, 2, 1],
          sim_values = [[1, 2 / 3, 0], [2 / 3, 1, 0], [0, 0, 0]]\<rparr>"
proof -
  have "example_features \<noteq> []" and "map pf_index example_features = [3, 2, 1]"
    by (simp_all add: example_features_def)
  then show ?thesis
    by (simp add: calculate_similarity_def example_cosine split: list.split)
qed

lemma example_init: "init example_frame = Inr example_recommender"
  by (simp add: init_def example_encode example_create example_calculate
      example_recommender_def)

lemma example_recommend_1_1: "recommend_products example_recommender 1 1 = Inl ValueError"
  by (simp add: recommend_products_def example_recommender_def sort_values_desc_def head_def)

lemma example_recommend_3_2: "recommend_products example_recommender 3 2 = Inr [2, 1]"
  by (simp add: recommend_products_def example_recommender_def sort_values_desc_def head_def)

lemma example_recommend_2_5: "recommend_products example_recommender 2 5 = Inr [3, 1]"
  by (simp add: recommend_products_def example_recommender_def sort_values_desc_def head_def)

lemma example_fields:
  "df example_recommender = example_df"
  "label_encoders example_recommender ''City'' = Some [''Delhi'', ''Pune'']"
  "label_encoders example_recommender ''Age_Group'' = Some [''18-25'', ''26-35'']"
  "label_encoders example_recommender ''Product_Category'' = Some [''A'', ''B'', ''C'']"
  by (simp_all add: example_recommender_def example_encoders_def)

subsection \<open>Cosine similarity\<close>






lemma dot_commute: "dot x y = dot y x"
  unfolding dot_def
proof (induction x arbitrary: y)
  case Nil
  then show ?case by simp
next
  case (Cons a x)
  then show ?case by (cases y) (simp_all add: mult.commute)
qed










lemma cosine_similarity_nth:
  "i < length X \<Longrightarrow> j < length X \<Longrightarrow>
     cosine_similarity X ! i ! j = dot (normalize_l2 (X ! i)) (normalize_l2 (X ! j))"
  by (simp add: cosine_similarity_def)

subsection \<open>The constructed object\<close>

lemma init_Inr:
  assumes "init raw = Inr st"
  shows "df st = snd (encode_features raw)"
    and "label_encoders st = fst (encode_features raw)"
    and "create_product_features (df st) = Some (product_features st)"
    and "product_features st \<noteq> []"
    and "product_similarity_df st =
           \<lparr>sim_index = map pf_index (product_features st),
            sim_columns = map pf_index (product_features st),
            sim_values = cosine_similarity (map feature_vector (product_features st))\<rparr>"
  using assms
  by (auto simp: init_def calculate_similarity_def Let_def
      split: prod.splits option.splits list.splits sum.splits)

lemma init_similarity_nth:
  assumes "init raw = Inr st" "i < length (product_features st)" "j < length (product_features st)"
  shows "sim_values (product_similarity_df st) ! i ! j =
           dot (normalize_l2 (feature_vector (product_features st ! i)))
               (normalize_l2 (feature_vector (product_features st ! j)))"
  using assms by (simp add: init_Inr(5) cosine_similarity_nth)

lemma example_sizes:
  "length (product_features example_recommender) = 3"
  "length (sim_index (product_similarity_df example_recommender)) = 3"
  "length (sim_columns (product_similarity_df example_recommender)) = 3"
  by (simp_all add: example_recommender_def example_features_def)

subsection \<open>The similarity matrix\<close>




text \<open>
  Claim C3: the entry at row \<open>a\<close>, column \<open>b\<close> equals the entry at row \<open>b\<close>, column \<open>a\<close>.
  Positions \<open>i\<close> and \<open>j\<close> name the same products on the row axis and on the column axis.
\<close>

theorem similarity_symmetric:
  assumes "init raw = Inr st"
    and "i < length (sim_index (product_similarity_df st))"
    and "j < length (sim_columns (product_similarity_df st))"
  shows "sim_values (product_similarity_df st) ! i ! j =
         sim_values (product_similarity_df st) ! j ! i
       \<and> sim_index (product_similarity_df st) ! i = sim_columns (product_similarity_df st) ! i
       \<and> sim_index (product_similarity_df st) ! j = sim_columns (product_similarity_df st) ! j"
proof -
  have "i < length (product_features st)" "j < length (product_features st)"
    using assms by (simp_all add: init_Inr(5))
  then show ?thesis
    using assms(1) by (simp add: init_similarity_nth dot_commute [of "normalize_l2 (feature_vector (product_features st ! i))"]) (simp add: init_Inr(5))
qed

theorem similarity_symmetric_witness:
  "init example_frame = Inr example_recommender
   \<and> (0::nat) < length (sim_index (product_similarity_df example_recommender))
   \<and> (1::nat) < length (sim_columns (product_similarity_df example_recommender))
   \<and> sim_values (product_similarity_df example_recommender) ! 0 ! 1 =
       sim_values (product_similarity_df example_recommender) ! 1 ! 0"
  using similarity_symmetric [OF example_init, of 0 1]
  by (simp add: example_init example_sizes)



subsection \<open>A customer who is not in the data\<close>

text \<open>
  Claim C4: for a customer identifier that is not in the \<^verbatim>\<open>Customer_ID\<close> column the
  method returns an empty product list, an empty category list and \<^verbatim>\<open>"Unknown"\<close> for city
  and age group, and the object (data frame, encoders, similarity matrix) is unchanged.
\<close>

theorem unknown_customer:
  assumes "customer_id \<notin> Customer_ID ` set (df st)"
  shows "recommend_products_for_customer set_iter st customer_id num_recommendations =
           (Inr ([], [], ''Unknown'', ''Unknown''), st)"
proof -
  have "filter (\<lambda>r. Customer_ID r = customer_id) (df st) = []"
    using assms by (auto simp: filter_empty_conv)
  then show ?thesis by (simp add: recommend_products_for_customer_def)
qed

theorem unknown_customer_witness:
  "''ZP_CUST9'' \<notin> Customer_ID ` set (df example_recommender)
   \<and> recommend_products_for_customer ascending example_recommender ''ZP_CUST9''
         default_num_recommendations =
       (Inr ([], [], ''Unknown'', ''Unknown''), example_recommender)"
proof -
  have absent: "''ZP_CUST9'' \<notin> Customer_ID ` set (df example_recommender)"
    by (simp add: example_fields example_df_def)
  show ?thesis
    using absent unknown_customer [OF absent, of ascending default_num_recommendations]
    by simp
qed

subsection \<open>Encoders and feature rows\<close>

lemma set_drop_duplicates_on: "set (drop_duplicates_on key seen xs) \<subseteq> set xs"
  by (induction xs arbitrary: seen) auto

lemma min_max_range:
  assumes "v \<in> set x" and "\<not> nan_column x"
  shows "0 \<le> min_max x v \<and> min_max x v \<le> 1"
proof -
  have fin: "finite (set x)" by simp
  have lo: "Min (set x) \<le> v" and hi: "v \<le> Max (set x)"
    using assms(1) by simp_all
  have "Min (set x) \<le> Max (set x)" using lo hi by linarith
  moreover have "Max (set x) \<noteq> Min (set x)"
    using assms(2) by (simp add: nan_column_def)
  ultimately have pos: "0 < Max (set x) - Min (set x)" by linarith
  show ?thesis
    using lo hi pos by (simp add: min_max_def divide_le_eq)
qed

lemma set_fit: "set (fit y) = set y"
  by (simp add: fit_def)

lemma distinct_fit: "distinct (fit y)"
  by (simp add: fit_def)

lemma transform_nth:
  "v \<in> set classes \<Longrightarrow> transform classes v < length classes \<and> classes ! transform classes v = v"
  by (induction classes) auto

lemma inverse_transform_transform:
  "v \<in> set classes \<Longrightarrow> inverse_transform classes (transform classes v) = Inr v"
  by (simp add: inverse_transform_def transform_nth)

lemma inverse_transform_all_transform:
  "set vs \<subseteq> set classes \<Longrightarrow>
     inverse_transform_all classes (map (transform classes) vs) = Inr vs"
  by (induction vs) (simp_all add: inverse_transform_transform)

lemma create_product_features_Some:
  assumes "create_product_features d = Some pf" and "r \<in> set pf"
  shows "\<exists>r' \<in> set d. pf_index r = Product_ID r' \<and> pf_category r = Product_Category r'"
    and "length (pf_numeric r) = 6"
    and "v \<in> set (pf_numeric r) \<Longrightarrow> 0 \<le> v \<and> v \<le> 1"
proof -
  define rows where "rows = drop_duplicates_on selected_columns [] d"
  have no_nan: "\<not> list_ex (\<lambda>c. nan_column (map c rows)) numeric_columns"
    and pf: "pf = map (\<lambda>r. \<lparr>pf_index = Product_ID r, pf_category = Product_Category r,
                            pf_numeric = map (\<lambda>c. min_max (map c rows) (c r)) numeric_columns\<rparr>) rows"
    using assms(1) unfolding create_product_features_def rows_def [symmetric]
    by (simp_all add: Let_def split: if_splits)
  from assms(2) pf obtain r' where r': "r' \<in> set rows"
    and r: "r = \<lparr>pf_index = Product_ID r', pf_category = Product_Category r',
                 pf_numeric = map (\<lambda>c. min_max (map c rows) (c r')) numeric_columns\<rparr>"
    by auto
  have "r' \<in> set d"
    using r' set_drop_duplicates_on [of selected_columns "[]" d] by (auto simp: rows_def)
  then show "\<exists>r' \<in> set d. pf_index r = Product_ID r' \<and> pf_category r = Product_Category r'"
    using r by auto
  show "length (pf_numeric r) = 6"
    by (simp add: r numeric_columns_def)
  show "0 \<le> v \<and> v \<le> 1" if "v \<in> set (pf_numeric r)"
  proof -
    from that r obtain c where c: "c \<in> set numeric_columns" and v: "v = min_max (map c rows) (c r')"
      by auto
    have "\<not> nan_column (map c rows)"
      using no_nan c by (auto simp: list_ex_iff)
    moreover have "c r' \<in> set (map c rows)" using r' by simp
    ultimately show ?thesis using min_max_range v by blast
  qed
qed

lemma encode_features_simps:
  "snd (encode_features raw) = map (encode_row raw) raw"
  "fst (encode_features raw) ''Gender'' = Some (fit (map Gender raw))"
  "fst (encode_features raw) ''City'' = Some (fit (map City raw))"
  "fst (encode_features raw) ''Product_Category'' = Some (fit (map Product_Category raw))"
  "fst (encode_features raw) ''Payment_Method'' = Some (fit (map Payment_Method raw))"
  "fst (encode_features raw) ''Age_Group'' = Some (fit (map Age_Group raw))"
  "fst (encode_features raw) ''Loyalty_Tier'' = Some (fit (map Loyalty_Tier raw))"
  by (simp_all add: encode_features_def)

lemma encode_row_simps:
  "Customer_ID (encode_row raw r) = Customer_ID r"
  "Product_ID (encode_row raw r) = Product_ID r"
  "Gender (encode_row raw r) = transform (fit (map Gender raw)) (Gender r)"
  "City (encode_row raw r) = transform (fit (map City raw)) (City r)"
  "Product_Category (encode_row raw r) = transform (fit (map Product_Category raw)) (Product_Category r)"
  "Payment_Method (encode_row raw r) = transform (fit (map Payment_Method raw)) (Payment_Method r)"
  "Age_Group (encode_row raw r) = transform (fit (map Age_Group raw)) (Age_Group r)"
  "Loyalty_Tier (encode_row raw r) = transform (fit (map Loyalty_Tier raw)) (Loyalty_Tier r)"
  by (simp_all add: encode_row_def)

lemma example_first_product:
  "product_features example_recommender ! 0 =
     \<lparr>pf_index = 3, pf_category = 2, pf_numeric = [1, 1, 1, 1, 1, 0]\<rparr>"
  by (simp add: example_recommender_def example_features_def)

text \<open>
  Claim C5, as amended. The claim says that every dimension of a feature row, the encoded
  category included, lies between 0 and 1. After construction each of the six rescaled
  columns (price, competitor price, click-through rate, browsing time, voice and visual
  search counts) lies between 0 and 1 in every feature row; the first dimension is the
  integer code of the product category, below the number of categories, and is not
  rescaled.
\<close>

theorem features_normalized:
  assumes "init raw = Inr st" and "r \<in> set (product_features st)"
    and "v \<in> set (pf_numeric r)"
  shows "0 \<le> v \<and> v \<le> 1 \<and> length (pf_numeric r) = 6
       \<and> feature_vector r = real (pf_category r) # pf_numeric r
       \<and> (\<exists>classes. label_encoders st ''Product_Category'' = Some classes
                    \<and> pf_category r < length classes)"
proof -
  note created = init_Inr(3) [OF assms(1)]
  obtain r' where r': "r' \<in> set (df st)" "pf_category r = Product_Category r'"
    using create_product_features_Some(1) [OF created assms(2)] by blast
  then obtain r0 where r0: "r0 \<in> set raw" "r' = encode_row raw r0"
    by (auto simp: init_Inr(1) [OF assms(1)] encode_features_simps)
  have "Product_Category r0 \<in> set (fit (map Product_Category raw))"
    using r0(1) by (simp add: set_fit)
  then have "pf_category r < length (fit (map Product_Category raw))"
    using r'(2) r0(2) by (simp add: encode_row_simps transform_nth)
  moreover have "label_encoders st ''Product_Category'' = Some (fit (map Product_Category raw))"
    by (simp add: init_Inr(2) [OF assms(1)] encode_features_simps)
  ultimately show ?thesis
    using create_product_features_Some(2,3) [OF created assms(2)] assms(3)
    by (simp add: feature_vector_def)
qed

theorem features_normalized_witness:
  "init example_frame = Inr example_recommender
   \<and> product_features example_recommender ! 0 \<in> set (product_features example_recommender)
   \<and> (1::real) \<in> set (pf_numeric (product_features example_recommender ! 0))
   \<and> (0::real) \<le> 1 \<and> (1::real) \<le> 1
   \<and> length (pf_numeric (product_features example_recommender ! 0)) = 6"
proof -
  have mem: "product_features example_recommender ! 0 \<in> set (product_features example_recommender)"
    by (simp add: example_sizes)
  have cell: "(1::real) \<in> set (pf_numeric (product_features example_recommender ! 0))"
    by (simp add: example_first_product)
  show ?thesis
    using features_normalized [OF example_init mem cell] mem cell
    by (simp add: example_init)
qed

text \<open>
  Claim C5 as stated fails on the catalogue: with three categories the feature row of
  product 3 starts with the code 2.
\<close>

theorem features_normalized_counterexample:
  "init example_frame = Inr example_recommender
   \<and> product_features example_recommender ! 0 \<in> set (product_features example_recommender)
   \<and> feature_vector (product_features example_recommender ! 0) ! 0 = 2
   \<and> \<not> feature_vector (product_features example_recommender ! 0) ! 0 \<le> 1"
  by (simp add: example_init example_sizes) (simp add: example_first_product feature_vector_def)

subsection \<open>Decoding what was encoded\<close>

lemma drop_duplicates_on_map:
  "drop_duplicates_on key seen (map f xs) = map f (drop_duplicates_on (key \<circ> f) seen xs)"
  by (induction xs arbitrary: seen) simp_all

lemma encoded_filter_customer:
  "filter (\<lambda>r. Customer_ID r = c) (map (encode_row raw) xs) =
     map (encode_row raw) (filter (\<lambda>r. Customer_ID r = c) xs)"
  by (simp add: filter_map comp_def encode_row_simps)

lemma encoded_filter_product:
  "filter (\<lambda>r. Product_ID r \<in> A) (map (encode_row raw) xs) =
     map (encode_row raw) (filter (\<lambda>r. Product_ID r \<in> A) xs)"
  by (simp add: filter_map comp_def encode_row_simps)

lemma encoded_drop_duplicates:
  "drop_duplicates_on Product_ID seen (map (encode_row raw) xs) =
     map (encode_row raw) (drop_duplicates_on Product_ID seen xs)"
  by (simp add: drop_duplicates_on_map comp_def encode_row_simps)

lemma categorical_column_cases:
  assumes "(name, column, code) \<in> set categorical_columns"
  shows "fst (encode_features raw) name = Some (fit (map column raw))
       \<and> code (encode_row raw r) = transform (fit (map column raw)) (column r)"
  using assms
  by (auto simp: categorical_columns_def encode_features_simps encode_row_simps)

lemma stored_encoder_inverts:
  assumes "init raw = Inr st" and "(name, column, code) \<in> set categorical_columns"
    and "k < length raw"
  shows "\<exists>classes. label_encoders st name = Some classes
           \<and> code (df st ! k) = transform classes (column (raw ! k))
           \<and> inverse_transform classes (code (df st ! k)) = Inr (column (raw ! k))"
proof -
  have "column (raw ! k) \<in> set (fit (map column raw))"
    using assms(3) by (simp add: set_fit)
  then show ?thesis
    using assms(3) categorical_column_cases [OF assms(2), of raw "raw ! k"]
    by (simp add: init_Inr(1,2) [OF assms(1)] encode_features_simps
        inverse_transform_transform)
qed

lemma returned_strings:
  assumes init: "init raw = Inr st"
    and present: "filter (\<lambda>r. Customer_ID r = customer_id) raw \<noteq> []"
    and result: "fst (recommend_products_for_customer set_iter st customer_id n) =
                   Inr (products, categories, city, age_group)"
  shows "city = City (hd (filter (\<lambda>r. Customer_ID r = customer_id) raw))
       \<and> age_group = Age_Group (hd (filter (\<lambda>r. Customer_ID r = customer_id) raw))
       \<and> categories =
           map Product_Category
             (drop_duplicates_on Product_ID []
                (filter (\<lambda>r. Product_ID r \<in> set products) raw))"
proof -
  define mine where "mine = filter (\<lambda>r. Customer_ID r = customer_id) raw"
  have d: "df st = map (encode_row raw) raw"
    by (simp add: init_Inr(1) [OF init] encode_features_simps)
  have les: "label_encoders st ''City'' = Some (fit (map City raw))"
    "label_encoders st ''Age_Group'' = Some (fit (map Age_Group raw))"
    "label_encoders st ''Product_Category'' = Some (fit (map Product_Category raw))"
    by (simp_all add: init_Inr(2) [OF init] encode_features_simps)
  have data: "filter (\<lambda>r. Customer_ID r = customer_id) (df st) = map (encode_row raw) mine"
    by (simp add: d encoded_filter_customer mine_def)
  have ne: "mine \<noteq> []" using present by (simp add: mine_def)
  then have "hd mine \<in> set raw"
    using hd_in_set [OF ne] by (auto simp: mine_def)
  then have city_in: "City (hd mine) \<in> set (fit (map City raw))"
    and age_in: "Age_Group (hd mine) \<in> set (fit (map Age_Group raw))"
    by (simp_all add: set_fit)
  have first: "hd (map (encode_row raw) mine) = encode_row raw (hd mine)"
    using ne by (simp add: hd_map)
  have cats: "inverse_transform_all (fit (map Product_Category raw))
                (map Product_Category
                   (drop_duplicates_on Product_ID []
                      (filter (\<lambda>r. Product_ID r \<in> A) (df st)))) =
              Inr (map Product_Category
                     (drop_duplicates_on Product_ID []
                        (filter (\<lambda>r. Product_ID r \<in> A) raw)))" for A
  proof -
    let ?rows = "drop_duplicates_on Product_ID [] (filter (\<lambda>r. Product_ID r \<in> A) raw)"
    have "set ?rows \<subseteq> set raw"
      using set_drop_duplicates_on [of Product_ID "[]" "filter (\<lambda>r. Product_ID r \<in> A) raw"]
      by auto
    then have "set (map Product_Category ?rows) \<subseteq> set (fit (map Product_Category raw))"
      by (auto simp: set_fit)
    from inverse_transform_all_transform [OF this] show ?thesis
      by (simp add: d encoded_filter_product encoded_drop_duplicates comp_def encode_row_simps)
  qed
  show ?thesis
    using result ne
    unfolding recommend_products_for_customer_def data mine_def [symmetric]
    by (auto simp: les first encode_row_simps inverse_transform_transform [OF city_in]
        inverse_transform_transform [OF age_in] cats Let_def split: sum.splits)
qed

lemma example_customer_1:
  "fst (recommend_products_for_customer ascending example_recommender ''ZP_CUST1'' 2) =
     Inr ([1, 2], [''B'', ''A''], ''Pune'', ''18-25'')"
  by (simp add: recommend_products_for_customer_def example_fields example_recommend_3_2
      example_df_def inverse_transform_def head_def ascending_def)

text \<open>
  Claim C9: for each of the six encoded columns the stored encoder inverts the encoding:
  the code in the data frame is the encoder's code of the loaded value, and
  \<^verbatim>\<open>inverse_transform\<close> of that code is the loaded value. In particular, for a customer in
  the data, the returned city and age group are those of the customer's first loaded row
  and the returned categories are the loaded categories of the first rows of the returned
  products, in frame order.
\<close>

theorem encoder_roundtrip:
  assumes "init raw = Inr st" and "(name, column, code) \<in> set categorical_columns"
    and "k < length raw"
  shows "(\<exists>classes. label_encoders st name = Some classes
            \<and> code (df st ! k) = transform classes (column (raw ! k))
            \<and> inverse_transform classes (code (df st ! k)) = Inr (column (raw ! k)))
       \<and> (filter (\<lambda>r. Customer_ID r = customer_id) raw \<noteq> []
            \<and> fst (recommend_products_for_customer set_iter st customer_id n) =
                Inr (products, categories, city, age_group)
          \<longrightarrow> city = City (hd (filter (\<lambda>r. Customer_ID r = customer_id) raw))
            \<and> age_group = Age_Group (hd (filter (\<lambda>r. Customer_ID r = customer_id) raw))
            \<and> categories =
                map Product_Category
                  (drop_duplicates_on Product_ID []
                     (filter (\<lambda>r. Product_ID r \<in> set products) raw)))"
  using stored_encoder_inverts [OF assms] returned_strings [OF assms(1)]
  by blast

theorem encoder_roundtrip_witness:
  "init example_frame = Inr example_recommender
   \<and> (''City'', City, City) \<in> set (categorical_columns ::
        (string \<times> ((nat, string) row \<Rightarrow> string) \<times> ((nat, nat) row \<Rightarrow> nat)) list)
   \<and> (0::nat) < length example_frame
   \<and> label_encoders example_recommender ''City'' = Some [''Delhi'', ''Pune'']
   \<and> City (df example_recommender ! 0) = 1
   \<and> City (example_frame ! 0) = ''Pune''
   \<and> inverse_transform [''Delhi'', ''Pune''] 1 = Inr ''Pune''
   \<and> filter (\<lambda>r. Customer_ID r = ''ZP_CUST1'') example_frame \<noteq> []
   \<and> fst (recommend_products_for_customer ascending example_recommender ''ZP_CUST1'' 2) =
       Inr ([1, 2], [''B'', ''A''], ''Pune'', ''18-25'')
   \<and> ''Pune'' = City (hd (filter (\<lambda>r. Customer_ID r = ''ZP_CUST1'') example_frame))
   \<and> ''18-25'' = Age_Group (hd (filter (\<lambda>r. Customer_ID r = ''ZP_CUST1'') example_frame))
   \<and> [''B'', ''A''] =
       map Product_Category
         (drop_duplicates_on Product_ID []
            (filter (\<lambda>r. Product_ID r \<in> set [1, 2]) example_frame))"
proof -
  have col: "(''City'', City, City) \<in> set (categorical_columns ::
        (string \<times> ((nat, string) row \<Rightarrow> string) \<times> ((nat, nat) row \<Rightarrow> nat)) list)"
    by (simp add: categorical_columns_def)
  have len: "(0::nat) < length example_frame"
    by (simp add: example_frame_def)
  have present: "filter (\<lambda>r. Customer_ID r = ''ZP_CUST1'') example_frame \<noteq> []"
    by (simp add: example_frame_def)
  have cell: "City (example_frame ! 0) = ''Pune''"
    by (simp add: example_frame_def)
  show ?thesis
    using encoder_roundtrip [OF example_init col len, of "''ZP_CUST1''" ascending 2
        "[1, 2]" "[''B'', ''A'']" "''Pune''" "''18-25''"]
      col len present cell example_customer_1
    by (simp add: example_init example_fields) (simp add: example_df_def inverse_transform_def)
qed

subsection \<open>Recommendations for a product\<close>

lemma set_head: "set (head n xs) \<subseteq> set xs"
  by (auto simp: head_def dest: in_set_takeD)

lemma distinct_head: "distinct xs \<Longrightarrow> distinct (head n xs)"
  by (simp add: head_def)

lemma length_head: "0 \<le> n \<Longrightarrow> int (length (head n xs)) \<le> n"
  by (simp add: head_def)

lemma count_head: "length (filter P (head n xs)) \<le> length (filter P xs)"
proof -
  have "length (filter P (take k xs)) \<le> length (filter P xs)" for k
  proof -
    have "filter P xs = filter P (take k xs) @ filter P (drop k xs)"
      by (simp flip: filter_append)
    then show ?thesis by simp
  qed
  then show ?thesis by (simp add: head_def)
qed

lemma count_sort_values_desc:
  "length (filter P (sort_values_desc column)) = length (filter P column)"
  by (simp add: sort_values_desc_def filter_sort)

lemma set_sort_values_desc: "set (sort_values_desc column) = set column"
  by (simp add: sort_values_desc_def)

lemma remove1_last_occurrence:
  "length (filter (\<lambda>y. y = x) xs) \<le> 1 \<Longrightarrow> x \<notin> set (remove1 x xs)"
proof (induction xs)
  case Nil
  then show ?case by simp
next
  case (Cons a xs)
  show ?case
  proof (cases "a = x")
    case True
    with Cons.prems have "filter (\<lambda>y. y = x) xs = []" by simp
    then have "x \<notin> set xs" by (auto simp: filter_empty_conv)
    with True show ?thesis by simp
  next
    case False
    with Cons show ?thesis by simp
  qed
qed

lemma count_positions:
  "length (filter (\<lambda>j. P (xs ! j)) [0..<length xs]) = length (filter P xs)"
proof -
  have "map (nth xs) (filter (\<lambda>j. P (xs ! j)) [0..<length xs]) =
        filter P (map (nth xs) [0..<length xs])"
    by (simp add: filter_map comp_def)
  then have "length (map (nth xs) (filter (\<lambda>j. P (xs ! j)) [0..<length xs])) =
        length (filter P xs)"
    by (simp add: map_nth)
  then show ?thesis by simp
qed

lemma recommend_products_Inr:
  assumes "recommend_products st product_id n = Inr similar"
  obtains j where
    "filter (\<lambda>j. sim_columns (product_similarity_df st) ! j = product_id)
       [0..<length (sim_columns (product_similarity_df st))] = [j]"
    and "product_id \<in> set (map fst (head (n + 1) (sort_values_desc
           (zip (sim_index (product_similarity_df st))
                (map (\<lambda>row. row ! j) (sim_values (product_similarity_df st)))))))"
    and "similar = remove1 product_id (map fst (head (n + 1) (sort_values_desc
           (zip (sim_index (product_similarity_df st))
                (map (\<lambda>row. row ! j) (sim_values (product_similarity_df st)))))))"
  using assms unfolding recommend_products_def Let_def
  by (auto split: list.splits if_splits)

lemma recommend_products_in_index:
  assumes "recommend_products st product_id n = Inr similar"
  shows "set similar \<subseteq> set (sim_index (product_similarity_df st))"
proof -
  from assms obtain j where
    similar: "similar = remove1 product_id (map fst (head (n + 1) (sort_values_desc
           (zip (sim_index (product_similarity_df st))
                (map (\<lambda>row. row ! j) (sim_values (product_similarity_df st)))))))"
    by (rule recommend_products_Inr)
  show ?thesis
  proof
    fix x assume "x \<in> set similar"
    then have "x \<in> set (map fst (head (n + 1) (sort_values_desc
           (zip (sim_index (product_similarity_df st))
                (map (\<lambda>row. row ! j) (sim_values (product_similarity_df st)))))))"
      unfolding similar using set_remove1_subset by fastforce
    then obtain e where "e \<in> set (zip (sim_index (product_similarity_df st))
                (map (\<lambda>row. row ! j) (sim_values (product_similarity_df st))))" "x = fst e"
      using set_head set_sort_values_desc by fastforce
    then show "x \<in> set (sim_index (product_similarity_df st))"
      by (metis prod.collapse set_zip_leftD)
  qed
qed


lemma init_square:
  assumes "init raw = Inr st"
  shows "sim_index (product_similarity_df st) = sim_columns (product_similarity_df st)"
    and "length (sim_values (product_similarity_df st)) =
           length (sim_index (product_similarity_df st))"
    and "sim_index (product_similarity_df st) = map pf_index (product_features st)"
  by (simp_all add: init_Inr(5) [OF assms] cosine_similarity_def)

text \<open>
  Whenever \<open>recommend_products\<close> returns a list, the queried product is not in it: its
  label is on the index once, and that occurrence is the one removed.
\<close>

lemma recommend_products_excludes_query:
  assumes init: "init raw = Inr st"
    and result: "recommend_products st product_id n = Inr similar"
  shows "product_id \<notin> set similar"
proof -
  let ?sim = "product_similarity_df st"
  from result obtain j where
    once: "filter (\<lambda>j. sim_columns ?sim ! j = product_id) [0..<length (sim_columns ?sim)] = [j]"
    and similar: "similar = remove1 product_id (map fst (head (n + 1) (sort_values_desc
           (zip (sim_index ?sim) (map (\<lambda>row. row ! j) (sim_values ?sim))))))"
    by (rule recommend_products_Inr)
  let ?column = "zip (sim_index ?sim) (map (\<lambda>row. row ! j) (sim_values ?sim))"
  have labels: "map fst ?column = sim_index ?sim"
    by (simp add: init_square(2) [OF init])
  have "length (filter (\<lambda>y. y = product_id) (sim_columns ?sim)) = 1"
    using count_positions [of "\<lambda>y. y = product_id" "sim_columns ?sim"] once by simp
  then have one: "length (filter (\<lambda>e. fst e = product_id) ?column) = 1"
    using labels init_square(1) [OF init]
    by (metis (mono_tags, lifting) comp_def filter_cong filter_map length_map)
  have "length (filter (\<lambda>y. y = product_id)
          (map fst (head (n + 1) (sort_values_desc ?column)))) =
        length (filter (\<lambda>e. fst e = product_id) (head (n + 1) (sort_values_desc ?column)))"
    by (simp add: filter_map comp_def)
  also have "\<dots> \<le> length (filter (\<lambda>e. fst e = product_id) (sort_values_desc ?column))"
    by (rule count_head)
  also have "\<dots> = 1"
    by (simp add: count_sort_values_desc one)
  finally show ?thesis
    unfolding similar by (rule remove1_last_occurrence)
qed

lemma update_all_Inr:
  assumes "update_all st n purchases inserted = Inr result" and "x \<in> set result"
  shows "x \<in> set inserted \<or>
         (\<exists>p similar. p \<in> set purchases \<and> recommend_products st p n = Inr similar
                       \<and> x \<in> set similar)"
  using assms
proof (induction purchases arbitrary: inserted)
  case Nil
  then show ?case by simp
next
  case (Cons p purchases)
  from Cons.prems(1) obtain similar where
    similar: "recommend_products st p n = Inr similar"
    and rest: "update_all st n purchases (inserted @ similar) = Inr result"
    by (auto split: sum.splits)
  from Cons.IH [OF rest Cons.prems(2)] similar show ?case
    by auto
qed

lemma customer_result_cases:
  assumes "fst (recommend_products_for_customer set_iter st customer_id n) =
             Inr (products, categories, city, age_group)"
  shows "products = [] \<or>
         (\<exists>inserted.
            update_all st n
              (map Product_ID (filter (\<lambda>r. Customer_ID r = customer_id) (df st))) [] =
              Inr inserted
            \<and> products = head n (set_iter inserted))"
  using assms unfolding recommend_products_for_customer_def
  by (auto simp: Let_def split: if_splits option.splits sum.splits)

lemma length_drop_duplicates_on:
  "length (drop_duplicates_on key seen xs) = card (key ` set xs - set seen)"
proof (induction xs arbitrary: seen)
  case Nil
  then show ?case by simp
next
  case (Cons x xs)
  show ?case
  proof (cases "key x \<in> set seen")
    case True
    then have "key ` set (x # xs) - set seen = key ` set xs - set seen" by auto
    with True Cons.IH [of seen] show ?thesis by simp
  next
    case False
    have "key ` set (x # xs) - set seen = insert (key x) (key ` set xs - set (key x # seen))"
      using False by auto
    moreover have "key x \<notin> key ` set xs - set (key x # seen)" by simp
    ultimately have "card (key ` set (x # xs) - set seen) =
                     Suc (card (key ` set xs - set (key x # seen)))"
      by (simp del: set_simps)
    with False Cons.IH [of "key x # seen"] show ?thesis by simp
  qed
qed

lemma length_inverse_transform_all:
  "inverse_transform_all classes codes = Inr names \<Longrightarrow> length names = length codes"
  by (induction codes arbitrary: names) (auto split: sum.splits)

lemma customer_products_in_index:
  assumes "enumerates set_iter" and "init raw = Inr st"
    and "fst (recommend_products_for_customer set_iter st customer_id n) =
           Inr (products, categories, city, age_group)"
  shows "set products \<subseteq> pf_index ` set (product_features st)"
proof -
  from customer_result_cases [OF assms(3)] show ?thesis
  proof
    assume "products = []"
    then show ?thesis by simp
  next
    assume "\<exists>inserted.
            update_all st n
              (map Product_ID (filter (\<lambda>r. Customer_ID r = customer_id) (df st))) [] =
              Inr inserted
            \<and> products = head n (set_iter inserted)"
    then obtain inserted where
      upd: "update_all st n
            (map Product_ID (filter (\<lambda>r. Customer_ID r = customer_id) (df st))) [] =
            Inr inserted"
      and products: "products = head n (set_iter inserted)"
      by blast
    have "set products \<subseteq> set inserted"
      using assms(1) set_head [of n "set_iter inserted"]
      by (auto simp: products enumerates_def)
    moreover have "set inserted \<subseteq> set (sim_index (product_similarity_df st))"
      using update_all_Inr [OF upd] recommend_products_in_index by fastforce
    ultimately show ?thesis
      by (auto simp: init_square(3) [OF assms(2)])
  qed
qed

lemma customer_products_distinct:
  assumes "enumerates set_iter"
    and "fst (recommend_products_for_customer set_iter st customer_id n) =
           Inr (products, categories, city, age_group)"
  shows "distinct products"
  using customer_result_cases [OF assms(2)] assms(1)
  by (auto simp: enumerates_def distinct_head)

lemma customer_categories_rows:
  assumes "fst (recommend_products_for_customer set_iter st customer_id n) =
             Inr (products, categories, city, age_group)"
    and "filter (\<lambda>r. Customer_ID r = customer_id) (df st) \<noteq> []"
  shows "length categories =
           length (drop_duplicates_on Product_ID []
                     (filter (\<lambda>r. Product_ID r \<in> set products) (df st)))"
  using assms unfolding recommend_products_for_customer_def
  by (auto simp: Let_def dest: length_inverse_transform_all
      split: if_splits option.splits sum.splits)

text \<open>
  The category list is as long as the product list: each returned product is in the data
  frame and is listed once.
\<close>

lemma categories_same_length:
  assumes "enumerates set_iter" and "init raw = Inr st"
    and "fst (recommend_products_for_customer set_iter st customer_id n) =
           Inr (products, categories, city, age_group)"
  shows "length categories = length products"
proof (cases "filter (\<lambda>r. Customer_ID r = customer_id) (df st) = []")
  case True
  with assms(3) show ?thesis
    by (simp add: recommend_products_for_customer_def)
next
  case False
  have "pf_index ` set (product_features st) \<subseteq> Product_ID ` set (df st)"
    using create_product_features_Some(1) [OF init_Inr(3) [OF assms(2)]] by force
  then have "set products \<subseteq> Product_ID ` set (df st)"
    using customer_products_in_index [OF assms] by blast
  then have "Product_ID ` set (filter (\<lambda>r. Product_ID r \<in> set products) (df st)) =
             set products"
    by auto
  then have "length (drop_duplicates_on Product_ID []
                     (filter (\<lambda>r. Product_ID r \<in> set products) (df st))) =
             card (set products)"
    by (simp add: length_drop_duplicates_on)
  also have "\<dots> = length products"
    using customer_products_distinct [OF assms(1,3)] by (simp add: distinct_card)
  finally show ?thesis
    using customer_categories_rows [OF assms(3) False] by simp
qed

subsection \<open>The catalogue, queried\<close>

lemma enumerates_ascending: "enumerates ascending"
  by (simp add: enumerates_def ascending_def)

lemma example_recommend_3_5: "recommend_products example_recommender 3 5 = Inr [2, 1]"
  by (simp add: recommend_products_def example_recommender_def sort_values_desc_def head_def)

lemma example_recommend_3_minus_2: "recommend_products example_recommender 3 (- 2) = Inr [2]"
  by (simp add: recommend_products_def example_recommender_def sort_values_desc_def head_def)

lemma example_recommend_2_2: "recommend_products example_recommender 2 2 = Inr [3, 1]"
  by (simp add: recommend_products_def example_recommender_def sort_values_desc_def head_def)

lemma example_recommend_1_2: "recommend_products example_recommender 1 2 = Inr [3, 2]"
  by (simp add: recommend_products_def example_recommender_def sort_values_desc_def head_def)

lemma example_recommend_2_1: "recommend_products example_recommender 2 1 = Inr [3]"
  by (simp add: recommend_products_def example_recommender_def sort_values_desc_def head_def)

lemma example_recommend_Suc:
  "recommend_products example_recommender (Suc 0) 1 = Inl ValueError"
  "recommend_products example_recommender (Suc 0) 2 = Inr [3, 2]"
  using example_recommend_1_1 example_recommend_1_2 by simp_all

lemma example_customer_2:
  "fst (recommend_products_for_customer ascending example_recommender ''ZP_CUST2'' 2) =
     Inr ([1, 2], [''B'', ''A''], ''Delhi'', ''26-35'')"
  by (simp add: recommend_products_for_customer_def example_fields example_recommend_2_2
      example_recommend_Suc example_df_def inverse_transform_def head_def ascending_def)

lemma example_customer_1_default:
  "fst (recommend_products_for_customer ascending example_recommender ''ZP_CUST1''
          default_num_recommendations) =
     Inr ([1, 2], [''B'', ''A''], ''Pune'', ''18-25'')"
  by (simp add: recommend_products_for_customer_def example_fields example_recommend_3_5
      example_df_def inverse_transform_def head_def ascending_def
      default_num_recommendations_def)

lemma example_customer_1_minus_2:
  "fst (recommend_products_for_customer ascending example_recommender ''ZP_CUST1'' (- 2)) =
     Inr ([], [], ''Pune'', ''18-25'')"
  by (simp add: recommend_products_for_customer_def example_fields
      example_recommend_3_minus_2 example_df_def inverse_transform_def head_def ascending_def)

lemma example_customer_2_raises:
  "fst (recommend_products_for_customer ascending example_recommender ''ZP_CUST2'' 1) =
     Inl ValueError"
  by (simp add: recommend_products_for_customer_def example_fields example_recommend_2_1
      example_recommend_Suc example_df_def inverse_transform_def)



text \<open>
  Claim C1 says that \<open>recommend_products\<close> returns, for every product of the feature
  table and every count, a list without the queried product, and never fails at the
  removal. The first half holds whenever a list is returned
  (\<open>recommend_products_excludes_query\<close>). The second half fails on the catalogue: every
  similarity to product 1 is 0, the two best entries are products 3 and 2, and the
  removal of product 1 raises \<^verbatim>\<open>ValueError\<close>; so does the query for the customer who bought
  it.
\<close>

theorem recommend_products_raises:
  "init example_frame = Inr example_recommender
   \<and> map pf_index (product_features example_recommender) = [3, 2, 1]
   \<and> recommend_products example_recommender 1 1 = Inl ValueError
   \<and> fst (recommend_products_for_customer ascending example_recommender ''ZP_CUST2'' 1) =
       Inl ValueError"
  by (simp add: example_init example_recommend_Suc example_customer_2_raises)
    (simp add: example_recommender_def example_features_def)

subsection \<open>Recommendations for a customer\<close>




text \<open>
  Claim C10, as amended. The claim bounds the length of the returned list by the count
  for every count. For a count that is not negative, whenever the method returns, the
  list has at most that many products, however many the purchases contribute, and each
  of them is on the index of the product feature table.
\<close>

theorem customer_recommendations_bounded:
  assumes "enumerates set_iter" and "init raw = Inr st" and "0 \<le> n"
    and "fst (recommend_products_for_customer set_iter st customer_id n) =
           Inr (products, categories, city, age_group)"
  shows "int (length products) \<le> n
       \<and> set products \<subseteq> pf_index ` set (product_features st)"
proof -
  have "int (length products) \<le> n"
    using customer_result_cases [OF assms(4)] assms(3) by (auto simp: length_head)
  then show ?thesis
    using customer_products_in_index [OF assms(1,2,4)] by simp
qed

theorem customer_recommendations_bounded_witness:
  "enumerates ascending
   \<and> init example_frame = Inr example_recommender
   \<and> (0::int) \<le> 2
   \<and> fst (recommend_products_for_customer ascending example_recommender ''ZP_CUST2'' 2) =
       Inr ([1, 2], [''B'', ''A''], ''Delhi'', ''26-35'')
   \<and> int (length [1, 2 :: nat]) \<le> 2
   \<and> set [1, 2] \<subseteq> pf_index ` set (product_features example_recommender)"
proof -
  have two: "(0::int) \<le> 2" by simp
  show ?thesis
    using customer_recommendations_bounded
        [OF enumerates_ascending example_init two example_customer_2]
      enumerates_ascending example_customer_2
    by (simp add: example_init)
qed

text \<open>
  Claim C10 as stated fails for a negative count: with -2 the method returns the empty
  list, which is longer than -2.
\<close>

theorem customer_recommendations_bounded_counterexample:
  "init example_frame = Inr example_recommender
   \<and> filter (\<lambda>r. Customer_ID r = ''ZP_CUST1'') (df example_recommender) \<noteq> []
   \<and> fst (recommend_products_for_customer ascending example_recommender ''ZP_CUST1'' (- 2)) =
       Inr ([], [], ''Pune'', ''18-25'')
   \<and> \<not> int (length ([] :: nat list)) \<le> - 2"
  by (simp add: example_init example_customer_1_minus_2) (simp add: example_fields example_df_def)

text \<open>
  Claim C7 says that the i-th returned category is the category of the i-th returned
  product. On the catalogue the products come back in the order of the set, 1 then 2, the
  categories in the order of the data frame, B (of product 2) then A (of product 1), and
  the form pairs product 1 with B and product 2 with A. The lengths of the two lists do
  agree (\<open>categories_same_length\<close>).
\<close>

theorem categories_misaligned:
  "init example_frame = Inr example_recommender
   \<and> map (\<lambda>r. (Product_ID r, Product_Category r)) example_frame =
       [(3, ''C''), (2, ''B''), (1, ''A'')]
   \<and> fst (recommend_products_for_customer ascending example_recommender ''ZP_CUST1''
            default_num_recommendations) =
       Inr ([1, 2], [''B'', ''A''], ''Pune'', ''18-25'')
   \<and> get_recommendations ascending example_recommender ''ZP_CUST1'' =
       Inr (Details ''Pune'' ''18-25'' [(1, ''B''), (2, ''A'')])"
  by (simp add: example_init example_customer_1_default get_recommendations_def)
    (simp add: example_frame_def)

end
